theory Spec2Isabelle
  imports Main "HOL-Library.AList" "HOL-Library.Sublist" "HOL-Library.Word"
begin

section \<open>Strings\<close>

text \<open>
  A JavaScript string is a sequence of UTF-16 code units. The strings the code only
  compares or uses as keys (paths, storage keys and values, the username) are modelled as
  \<open>string\<close>; the passwords, which the code hands to \<^verbatim>\<open>TextEncoder\<close>, are modelled as
  lists of code units, so that every password the login form can submit is there.
  \<open>utf16\<close> writes a literal as its code units.
\<close>

type_synonym code_unit = "16 word"

type_synonym jsstring = "code_unit list"

type_synonym byte = "8 word"

definition utf16 :: "string \<Rightarrow> jsstring" where
  "utf16 s = map of_char s"

text \<open>
  \<^verbatim>\<open>new TextEncoder().encode(s)\<close>: the string is first read as a sequence of Unicode
  scalar values, a surrogate pair giving one value above \<^verbatim>\<open>U+FFFF\<close> and a surrogate
  without its partner giving \<^verbatim>\<open>U+FFFD\<close>; each value is then written in UTF-8.
\<close>

definition isHighSurrogate :: "code_unit \<Rightarrow> bool" where
  "isHighSurrogate u = (0xD800 \<le> u \<and> u \<le> 0xDBFF)"

definition isLowSurrogate :: "code_unit \<Rightarrow> bool" where
  "isLowSurrogate u = (0xDC00 \<le> u \<and> u \<le> 0xDFFF)"

definition unpaired :: "code_unit \<Rightarrow> nat" where
  "unpaired u = (if isHighSurrogate u \<or> isLowSurrogate u then 0xFFFD else unat u)"

fun scalar_values :: "jsstring \<Rightarrow> nat list" where
  "scalar_values [] = []"
| "scalar_values [u] = [unpaired u]"
| "scalar_values (u # v # us) =
     (if isHighSurrogate u \<and> isLowSurrogate v
      then (0x10000 + (unat u - 0xD800) * 0x400 + (unat v - 0xDC00)) # scalar_values us
      else unpaired u # scalar_values (v # us))"

definition utf8 :: "nat \<Rightarrow> byte list" where
  "utf8 c =
     (if c < 0x80 then [of_nat c]
      else if c < 0x800 then [of_nat (0xC0 + c div 0x40), of_nat (0x80 + c mod 0x40)]
      else if c < 0x10000 then
        [of_nat (0xE0 + c div 0x1000), of_nat (0x80 + c div 0x40 mod 0x40),
         of_nat (0x80 + c mod 0x40)]
      else
        [of_nat (0xF0 + c div 0x40000), of_nat (0x80 + c div 0x1000 mod 0x40),
         of_nat (0x80 + c div 0x40 mod 0x40), of_nat (0x80 + c mod 0x40)])"

definition TextEncoder_encode :: "jsstring \<Rightarrow> byte list" where
  "TextEncoder_encode s = concat (map utf8 (scalar_values s))"

text \<open>\<^verbatim>\<open>b.toString(16).padStart(2, "0")\<close> for a byte.\<close>

definition hexDigit :: "nat \<Rightarrow> char" where
  "hexDigit n = ''0123456789abcdef'' ! n"

definition toHex :: "byte \<Rightarrow> string" where
  "toHex b = [hexDigit (unat b div 16), hexDigit (unat b mod 16)]"

section \<open>Build-time configuration and JavaScript truthiness\<close>

text \<open>
  \<^verbatim>\<open>import.meta.env\<close>: every entry is a string or \<^verbatim>\<open>undefined\<close>. Only the three
  entries the session code reads are kept.
\<close>

record env =
  VITE_AUTH_USERNAME :: "string option"
  VITE_AUTH_PASSWORD :: "jsstring option"
  BASE_URL :: "string option"

text \<open>
  Truthiness of a value that is a string, \<^verbatim>\<open>undefined\<close> or \<^verbatim>\<open>null\<close>: only a
  non-empty string is truthy.
\<close>

fun truthy :: "'a list option \<Rightarrow> bool" where
  "truthy None = False"
| "truthy (Some s) = (s \<noteq> [])"

section \<open>Session storage\<close>

text \<open>
  \<^verbatim>\<open>sessionStorage\<close> is a platform object. It is either usable, and then holds an
  ordered list of key/value pairs, or unavailable (storage disabled, opaque origin), and
  then every access raises. A write raises \<^verbatim>\<open>QuotaExceededError\<close> when the storage
  would grow beyond the browser's quota (counted here in characters of keys and values;
  the quota is zero in the private windows of some browsers). The source wraps none of its
  accesses in a handler, so the exception is a result of every function that touches the
  storage. \<open>TypeError\<close> is what a call through the missing \<^verbatim>\<open>crypto.subtle\<close> raises.
\<close>

datatype error = StorageError | QuotaExceededError | TypeError

datatype sessionStorage = Unavailable | Available "(string \<times> string) list"

definition getItem :: "sessionStorage \<Rightarrow> string \<Rightarrow> error + string option" where
  "getItem st k = (case st of Unavailable \<Rightarrow> Inl StorageError
                   | Available al \<Rightarrow> Inr (map_of al k))"

fun storage_size :: "(string \<times> string) list \<Rightarrow> nat" where
  "storage_size [] = 0"
| "storage_size ((k, v) # al) = length k + length v + storage_size al"

definition setItem ::
  "nat \<Rightarrow> sessionStorage \<Rightarrow> string \<Rightarrow> string \<Rightarrow> error + sessionStorage" where
  "setItem quota st k v =
     (case st of
        Unavailable \<Rightarrow> Inl StorageError
      | Available al \<Rightarrow>
          (if storage_size (AList.update k v al) \<le> quota
           then Inr (Available (AList.update k v al))
           else Inl QuotaExceededError))"

definition removeItem :: "sessionStorage \<Rightarrow> string \<Rightarrow> error + sessionStorage" where
  "removeItem st k = (case st of Unavailable \<Rightarrow> Inl StorageError
                      | Available al \<Rightarrow> Inr (Available (AList.delete k al)))"

section \<open>The auth library (lib/auth)\<close>

definition AUTH_SESSION_KEY :: string where
  "AUTH_SESSION_KEY = ''meilisearch-ui-auth''"

definition isAuthRequired :: "env \<Rightarrow> bool" where
  "isAuthRequired e = (truthy (VITE_AUTH_USERNAME e) \<and> truthy (VITE_AUTH_PASSWORD e))"

definition isAuthenticated :: "env \<Rightarrow> sessionStorage \<Rightarrow> error + bool" where
  "isAuthenticated e st =
     (if \<not> isAuthRequired e then Inr True
      else (case getItem st AUTH_SESSION_KEY of
              Inl err \<Rightarrow> Inl err
            | Inr authState \<Rightarrow> Inr (authState = Some ''authenticated'')))"

text \<open>
  What \<^verbatim>\<open>login\<close> needs from the browser: the SHA-256 digest of the Web Crypto API,
  which is missing outside a secure context (\<^verbatim>\<open>crypto.subtle\<close> is then undefined),
  and the storage quota. The digest is a parameter: the functions below are the source's
  for every digest.
\<close>

record platform =
  crypto_subtle_digest :: "(byte list \<Rightarrow> byte list) option"
  storage_quota :: nat

definition hashPassword :: "platform \<Rightarrow> jsstring \<Rightarrow> error + string" where
  "hashPassword p password =
     (case crypto_subtle_digest p of
        None \<Rightarrow> Inl TypeError
      | Some digest \<Rightarrow>
          (let data = TextEncoder_encode password;
               hashArray = digest data;
               hashHex = concat (map toHex hashArray)
           in Inr hashHex))"

text \<open>
  \<^verbatim>\<open>TextEncoder.encode\<close> takes the empty string for a missing argument; this is what
  \<^verbatim>\<open>hashPassword\<close> sees for an expected password that is \<^verbatim>\<open>undefined\<close>.
\<close>

fun encode_arg :: "'a list option \<Rightarrow> 'a list" where
  "encode_arg None = []"
| "encode_arg (Some s) = s"

text \<open>
  \<^verbatim>\<open>login\<close>. Both digests are awaited before anything is compared, so a missing
  digest rejects the call whatever the credentials are. The result pairs the returned
  boolean with the storage after the call; an exception leaves the storage as it was.
\<close>

definition login ::
  "platform \<Rightarrow> env \<Rightarrow> sessionStorage \<Rightarrow> string \<Rightarrow> jsstring
     \<Rightarrow> error + (bool \<times> sessionStorage)" where
  "login p e st username password =
     (if \<not> isAuthRequired e then
        (case setItem (storage_quota p) st AUTH_SESSION_KEY ''authenticated'' of
           Inl err \<Rightarrow> Inl err
         | Inr st' \<Rightarrow> Inr (True, st'))
      else
        (let expectedUsername = VITE_AUTH_USERNAME e;
             expectedPassword = VITE_AUTH_PASSWORD e
         in case hashPassword p password of
              Inl err \<Rightarrow> Inl err
            | Inr providedPasswordHash \<Rightarrow>
                (case hashPassword p (encode_arg expectedPassword) of
                   Inl err \<Rightarrow> Inl err
                 | Inr expectedPasswordHash \<Rightarrow>
                     (let usernameMatch = (Some username = expectedUsername);
                          passwordMatch = (providedPasswordHash = expectedPasswordHash)
                      in if usernameMatch \<and> passwordMatch then
                           (case setItem (storage_quota p) st AUTH_SESSION_KEY
                                   ''authenticated'' of
                              Inl err \<Rightarrow> Inl err
                            | Inr st' \<Rightarrow> Inr (True, st'))
                         else Inr (False, st)))))"

definition logout :: "sessionStorage \<Rightarrow> error + sessionStorage" where
  "logout st = removeItem st AUTH_SESSION_KEY"

text \<open>
  \<^verbatim>\<open>getRedirectUrl\<close>. \<open>search\<close> is the parsed query string of the current location,
  and \<^verbatim>\<open>URLSearchParams.get\<close> returns the first value stored under a name.
\<close>

definition URLSearchParams_get :: "(string \<times> string) list \<Rightarrow> string \<Rightarrow> string option" where
  "URLSearchParams_get search name = map_of search name"

definition startsWith :: "string \<Rightarrow> string \<Rightarrow> bool" where
  "startsWith s p = (take (length p) s = p)"

definition baseUrl :: "env \<Rightarrow> string" where
  \<comment> \<open>\<^verbatim>\<open>import.meta.env.BASE_URL || "/"\<close>\<close>
  "baseUrl e = (case BASE_URL e of
                  None \<Rightarrow> ''/''
                | Some b \<Rightarrow> (if b = [] then ''/'' else b))"

definition getRedirectUrl :: "env \<Rightarrow> (string \<times> string) list \<Rightarrow> string" where
  "getRedirectUrl e search =
     (case URLSearchParams_get search ''redirect'' of
        None \<Rightarrow> baseUrl e
      | Some redirect \<Rightarrow>
          (if redirect \<noteq> [] \<and> startsWith redirect (baseUrl e) then redirect
           else baseUrl e))"

section \<open>The root route's beforeLoad\<close>

text \<open>
  \<^verbatim>\<open>beforeLoad\<close> either returns (the navigation goes on) or throws a redirect with a
  target and search parameters. The local \<^verbatim>\<open>baseUrl\<close> of the source is computed and
  never used.
\<close>

datatype gate_outcome = Allow | Redirect string "(string \<times> string) list"

definition redirectAuthenticatedFromLogin ::
  "env \<Rightarrow> sessionStorage \<Rightarrow> string \<Rightarrow> error + gate_outcome" where
  \<comment> \<open>the second statement of \<^verbatim>\<open>beforeLoad\<close>\<close>
  "redirectAuthenticatedFromLogin e st pathname =
     (if pathname = ''/login'' then
        (case isAuthenticated e st of
           Inl err \<Rightarrow> Inl err
         | Inr a \<Rightarrow> (if a then Inr (Redirect ''/'' []) else Inr Allow))
      else Inr Allow)"

definition beforeLoad :: "env \<Rightarrow> sessionStorage \<Rightarrow> string \<Rightarrow> error + gate_outcome" where
  "beforeLoad e st pathname =
     (if isAuthRequired e then
        (case isAuthenticated e st of
           Inl err \<Rightarrow> Inl err
         | Inr a \<Rightarrow>
             (if \<not> a then
                (if pathname = ''/login'' then Inr Allow
                 else Inr (Redirect ''/login'' [(''redirect'', pathname)]))
              else redirectAuthenticatedFromLogin e st pathname))
      else redirectAuthenticatedFromLogin e st pathname)"

section \<open>The continuous guard (hooks/useAuthGuard)\<close>

text \<open>
  What the guard can see and change: the session storage, the \<^verbatim>\<open>authenticated\<close> flag
  of the application store, the calls made to the store setter and to the router (in
  order), and whether the interval timer and the storage listener are registered. A
  function of the guard that raises returns the exception together with the world at the
  moment of the throw: what was done before the throw stays done.
\<close>

datatype nav_mode = Push | Replace

datatype effect = SetAuthenticated bool | Navigate string nav_mode

record world =
  storage :: sessionStorage
  authenticated :: bool
  trace :: "effect list"
  timer :: bool
  listener :: bool

definition setAuthenticated :: "bool \<Rightarrow> world \<Rightarrow> world" where
  "setAuthenticated b w = w\<lparr>authenticated := b, trace := trace w @ [SetAuthenticated b]\<rparr>"

definition navigate :: "string \<Rightarrow> nav_mode \<Rightarrow> world \<Rightarrow> world" where
  "navigate to m w = w\<lparr>trace := trace w @ [Navigate to m]\<rparr>"

definition checkAuth :: "env \<Rightarrow> world \<Rightarrow> (error \<times> world) + world" where
  "checkAuth e w =
     (if isAuthRequired e then
        (case isAuthenticated e (storage w) of
           Inl err \<Rightarrow> Inl (err, w)
         | Inr a \<Rightarrow>
             (if \<not> a then Inr (navigate ''/login'' Replace (setAuthenticated False w))
              else Inr w))
      else Inr w)"

definition handleStorageChange ::
  "env \<Rightarrow> string option \<Rightarrow> world \<Rightarrow> (error \<times> world) + world" where
  "handleStorageChange e key w =
     (if key = Some ''meilisearch-ui-auth'' \<or> key = None then checkAuth e w else Inr w)"

text \<open>The effect of \<^verbatim>\<open>useAuthGuard(skipMonitoring)\<close> when it runs, and its cleanup.\<close>

definition useAuthGuard :: "env \<Rightarrow> bool \<Rightarrow> world \<Rightarrow> (error \<times> world) + world" where
  "useAuthGuard e skipMonitoring w =
     (if skipMonitoring then Inr w
      else (case checkAuth e w of
              Inl err \<Rightarrow> Inl err
            | Inr w' \<Rightarrow> Inr (w'\<lparr>timer := True, listener := True\<rparr>)))"

definition cleanup :: "world \<Rightarrow> world" where
  "cleanup w = w\<lparr>timer := False, listener := False\<rparr>"

text \<open>
  The platform delivers a timer tick only to a registered timer and a storage event only
  to a registered listener.
\<close>

datatype event = Tick | StorageEvent "string option"

fun deliver :: "env \<Rightarrow> event \<Rightarrow> world \<Rightarrow> (error \<times> world) + world" where
  "deliver e Tick w = (if timer w then checkAuth e w else Inr w)"
| "deliver e (StorageEvent key) w = (if listener w then handleStorageChange e key w else Inr w)"

fun deliver_all :: "env \<Rightarrow> event list \<Rightarrow> world \<Rightarrow> (error \<times> world) + world" where
  "deliver_all e [] w = Inr w"
| "deliver_all e (ev # evs) w =
     (case deliver e ev w of Inl err \<Rightarrow> Inl err | Inr w' \<Rightarrow> deliver_all e evs w')"

definition validateSession :: "env \<Rightarrow> sessionStorage \<Rightarrow> error + (bool \<times> sessionStorage)" where
  "validateSession e st =
     (if \<not> isAuthRequired e then Inr (True, st)
      else (case isAuthenticated e st of
              Inl err \<Rightarrow> Inl err
            | Inr isValid \<Rightarrow>
                (if \<not> isValid then
                   (case logout st of
                      Inl err \<Rightarrow> Inl err
                    | Inr st' \<Rightarrow> Inr (isValid, st'))
                 else Inr (isValid, st))))"

section \<open>The AuthGuard component\<close>

text \<open>
  One mount of \<^verbatim>\<open>AuthGuard\<close> at a location: the render body (whether the children are
  shown), then the effect of the hook, then the component's own effect.
\<close>

definition AuthGuard_render :: "env \<Rightarrow> string \<Rightarrow> world \<Rightarrow> error + bool" where
  "AuthGuard_render e pathname w =
     (let isLoginPage = (pathname = ''/login'')
      in if \<not> isAuthRequired e then Inr True
         else if isLoginPage then Inr True
         else isAuthenticated e (storage w))"

definition AuthGuard_effect :: "env \<Rightarrow> string \<Rightarrow> world \<Rightarrow> (error \<times> world) + world" where
  "AuthGuard_effect e pathname w =
     (let isLoginPage = (pathname = ''/login'')
      in if isAuthRequired e then
           (case isAuthenticated e (storage w) of
              Inl err \<Rightarrow> Inl (err, w)
            | Inr currentlyAuthenticated \<Rightarrow>
                (let w1 = setAuthenticated currentlyAuthenticated w
                 in if \<not> currentlyAuthenticated \<and> \<not> isLoginPage
                    then Inr (navigate ''/login'' Replace w1)
                    else Inr w1))
         else Inr (setAuthenticated True w))"

definition AuthGuard :: "env \<Rightarrow> string \<Rightarrow> world \<Rightarrow> (error \<times> world) + world" where
  "AuthGuard e pathname w =
     (case AuthGuard_render e pathname w of
        Inl err \<Rightarrow> Inl (err, w)
      | Inr shown \<Rightarrow>
          (case useAuthGuard e (pathname = ''/login'') w of
             Inl err \<Rightarrow> Inl err
           | Inr w' \<Rightarrow> AuthGuard_effect e pathname w'))"

section \<open>Example configurations\<close>

text \<open>
  The configuration of the documentation's walk-through (user \<^verbatim>\<open>admin\<close>, password
  \<^verbatim>\<open>secret\<close>), one with an empty password, one served under \<^verbatim>\<open>/ui/\<close>, and one
  with nothing set; a world before the guard is mounted and one with the guard armed.
  \<open>replacement_cfg\<close> has the one-character password \<^verbatim>\<open>U+FFFD\<close>. The browsers differ
  in what they offer: \<open>browser\<close> has a digest and room in the storage, \<open>insecure_browser\<close>
  has no \<^verbatim>\<open>crypto.subtle\<close>, \<open>private_browser\<close> has a storage quota of zero. The digest
  of the examples is the identity, which separates all byte sequences.
\<close>

abbreviation (input) replacement_cfg :: env where
  "replacement_cfg \<equiv> \<lparr>VITE_AUTH_USERNAME = Some ''admin'', VITE_AUTH_PASSWORD = Some [0xFFFD],
                       BASE_URL = Some ''/''\<rparr>"

abbreviation (input) browser :: platform where
  "browser \<equiv> \<lparr>crypto_subtle_digest = Some id, storage_quota = 5000000\<rparr>"

abbreviation (input) insecure_browser :: platform where
  "insecure_browser \<equiv> \<lparr>crypto_subtle_digest = None, storage_quota = 5000000\<rparr>"

abbreviation (input) private_browser :: platform where
  "private_browser \<equiv> \<lparr>crypto_subtle_digest = Some id, storage_quota = 0\<rparr>"

abbreviation (input) admin_cfg :: env where
  "admin_cfg \<equiv> \<lparr>VITE_AUTH_USERNAME = Some ''admin'', VITE_AUTH_PASSWORD = Some (utf16 ''secret''),
                 BASE_URL = Some ''/''\<rparr>"

abbreviation (input) empty_password_cfg :: env where
  "empty_password_cfg \<equiv> \<lparr>VITE_AUTH_USERNAME = Some ''admin'', VITE_AUTH_PASSWORD = Some [],
                          BASE_URL = Some ''/''\<rparr>"

abbreviation (input) ui_cfg :: env where
  "ui_cfg \<equiv> \<lparr>VITE_AUTH_USERNAME = Some ''admin'', VITE_AUTH_PASSWORD = Some (utf16 ''secret''),
              BASE_URL = Some ''/ui/''\<rparr>"

abbreviation (input) armed_world :: "sessionStorage \<Rightarrow> world" where
  "armed_world st \<equiv> \<lparr>storage = st, authenticated = True, trace = [], timer = True,
                      listener = True\<rparr>"

abbreviation (input) unset_cfg :: env where
  "unset_cfg \<equiv> \<lparr>VITE_AUTH_USERNAME = None, VITE_AUTH_PASSWORD = None, BASE_URL = None\<rparr>"

abbreviation (input) fresh_world :: "sessionStorage \<Rightarrow> world" where
  "fresh_world st \<equiv> \<lparr>storage = st, authenticated = True, trace = [], timer = False,
                      listener = False\<rparr>"

section \<open>Basic facts\<close>

lemma utf16_eq_Nil [simp]: "utf16 s = [] \<longleftrightarrow> s = []"
  by (simp add: utf16_def)

lemma startsWith_prefix: "startsWith s p \<longleftrightarrow> prefix p s"
  unfolding startsWith_def by (metis append_eq_conv_conj prefix_def)

lemma isAuthRequired_iff:
  "isAuthRequired e \<longleftrightarrow>
     (\<exists>u p. VITE_AUTH_USERNAME e = Some u \<and> u \<noteq> [] \<and> VITE_AUTH_PASSWORD e = Some p \<and> p \<noteq> [])"
  unfolding isAuthRequired_def
  by (cases "VITE_AUTH_USERNAME e"; cases "VITE_AUTH_PASSWORD e") auto

lemma isAuthenticated_open: "\<not> isAuthRequired e \<Longrightarrow> isAuthenticated e st = Inr True"
  by (simp add: isAuthenticated_def)

lemma isAuthenticated_available:
  "isAuthRequired e \<Longrightarrow>
     isAuthenticated e (Available al) = Inr (map_of al AUTH_SESSION_KEY = Some ''authenticated'')"
  by (simp add: isAuthenticated_def getItem_def)

lemma isAuthenticated_unavailable:
  "isAuthRequired e \<Longrightarrow> isAuthenticated e Unavailable = Inl StorageError"
  by (simp add: isAuthenticated_def getItem_def)

lemma getRedirectUrl_prefix:
  "prefix (baseUrl e) (getRedirectUrl e search) \<and>
   (getRedirectUrl e search = baseUrl e \<or>
    URLSearchParams_get search ''redirect'' = Some (getRedirectUrl e search))"
  by (cases "URLSearchParams_get search ''redirect''")
     (auto simp: getRedirectUrl_def startsWith_prefix)

lemma unpaired_surrogate_encoding:
  "TextEncoder_encode [0xD800] = [0xEF, 0xBF, 0xBD]"
  "TextEncoder_encode [0xFFFD] = [0xEF, 0xBF, 0xBD]"
  by (simp_all add: TextEncoder_encode_def utf8_def unpaired_def isHighSurrogate_def
        isLowSurrogate_def)

lemma hashPassword_without_digest:
  "crypto_subtle_digest p = None \<Longrightarrow> hashPassword p pw = Inl TypeError"
  by (simp add: hashPassword_def)

lemma hashPassword_with_digest:
  "crypto_subtle_digest p = Some digest \<Longrightarrow>
     hashPassword p pw = Inr (concat (map toHex (digest (TextEncoder_encode pw))))"
  by (simp add: hashPassword_def)

lemma hashPassword_same_encoding:
  "TextEncoder_encode pw = TextEncoder_encode pw' \<Longrightarrow> hashPassword p pw = hashPassword p pw'"
  by (cases "crypto_subtle_digest p") (simp_all add: hashPassword_def)

lemma login_without_digest:
  "isAuthRequired e \<Longrightarrow> crypto_subtle_digest p = None \<Longrightarrow> login p e st u pw = Inl TypeError"
  by (simp add: login_def hashPassword_without_digest)

lemma login_with_digest:
  "isAuthRequired e \<Longrightarrow> crypto_subtle_digest p = Some digest \<Longrightarrow>
     login p e st u pw =
       (if Some u = VITE_AUTH_USERNAME e \<and>
           hashPassword p pw = hashPassword p (encode_arg (VITE_AUTH_PASSWORD e))
        then map_sum id (Pair True)
               (setItem (storage_quota p) st AUTH_SESSION_KEY ''authenticated'')
        else Inr (False, st))"
  by (simp add: login_def hashPassword_with_digest Let_def split: sum.splits)

lemma login_same_encoding:
  "TextEncoder_encode pw = TextEncoder_encode pw' \<Longrightarrow> login p e st u pw = login p e st u pw'"
  using hashPassword_same_encoding [of pw pw' p] by (simp add: login_def)

lemma login_true_stores:
  assumes "login p e st u pw = Inr (True, st1)"
  shows "setItem (storage_quota p) st AUTH_SESSION_KEY ''authenticated'' = Inr st1"
  using assms
  by (cases "setItem (storage_quota p) st AUTH_SESSION_KEY ''authenticated''")
     (auto simp: login_def Let_def split: if_splits sum.splits)

lemma setItem_room:
  "storage_size (AList.update k v al) \<le> quota \<Longrightarrow>
     setItem quota (Available al) k v = Inr (Available (AList.update k v al))"
  by (simp add: setItem_def)

lemma setItem_then_getItem:
  "setItem quota st k v = Inr st' \<Longrightarrow> getItem st' k = Inr (Some v)"
  by (auto simp: setItem_def getItem_def update_conv' split: sessionStorage.splits if_splits)

lemma setItem_available:
  "setItem quota st k v = Inr st' \<Longrightarrow> \<exists>al. st' = Available al"
  by (auto simp: setItem_def split: sessionStorage.splits if_splits)

lemma removeItem_then_getItem:
  "removeItem st k = Inr st' \<Longrightarrow> getItem st' k = Inr None"
  by (auto simp: removeItem_def getItem_def delete_conv' split: sessionStorage.splits)

lemma removeItem_twice:
  "removeItem st k = Inr st' \<Longrightarrow> removeItem st' k = Inr st'"
  by (auto simp: removeItem_def delete_idem split: sessionStorage.splits)

lemma logout_logout:
  "(case logout st of Inl err \<Rightarrow> Inl err | Inr st' \<Rightarrow> logout st') = logout st"
  by (cases st) (simp_all add: logout_def removeItem_def delete_idem)

lemma logout_after_setItem:
  "logout (Available (AList.update AUTH_SESSION_KEY v al)) =
     Inr (Available (AList.delete AUTH_SESSION_KEY al))"
  by (simp add: logout_def removeItem_def delete_update_same)

lemma checkAuth_lost:
  "isAuthRequired e \<Longrightarrow> isAuthenticated e (storage w) = Inr False \<Longrightarrow>
     checkAuth e w =
       Inr (w\<lparr>authenticated := False,
              trace := trace w @ [SetAuthenticated False, Navigate ''/login'' Replace]\<rparr>)"
  by (simp add: checkAuth_def navigate_def setAuthenticated_def)

lemma checkAuth_valid:
  "\<not> isAuthRequired e \<or> isAuthenticated e (storage w) = Inr True \<Longrightarrow> checkAuth e w = Inr w"
  by (auto simp: checkAuth_def)

lemma checkAuth_error:
  "isAuthRequired e \<Longrightarrow> storage w = Unavailable \<Longrightarrow> checkAuth e w = Inl (StorageError, w)"
  by (simp add: checkAuth_def isAuthenticated_unavailable)

lemma deliver_unarmed: "\<not> timer w \<Longrightarrow> \<not> listener w \<Longrightarrow> deliver e ev w = Inr w"
  by (cases ev) simp_all

lemma deliver_all_unarmed: "\<not> timer w \<Longrightarrow> \<not> listener w \<Longrightarrow> deliver_all e evs w = Inr w"
  by (induction evs) (simp_all add: deliver_unarmed)

lemma deliver_all_after_cleanup: "deliver_all e evs (cleanup w) = Inr (cleanup w)"
  by (rule deliver_all_unarmed) (simp_all add: cleanup_def)

lemma AuthGuard_effect_login:
  "AuthGuard_effect e ''/login'' w = Inr w' \<Longrightarrow> w' = setAuthenticated (authenticated w') w"
  by (auto simp: AuthGuard_effect_def setAuthenticated_def Let_def split: if_splits sum.splits)

section \<open>The session predicates\<close>

text \<open>
  Claim C2. If the expected username or the expected password is absent or empty, then
  \<open>isAuthRequired\<close> is false and \<open>isAuthenticated\<close> returns true whatever the session
  storage is, an unusable storage included. If both are non-empty, then \<open>isAuthRequired\<close>
  is true and \<open>isAuthenticated\<close> returns true exactly when the value stored under the
  session key is the marker \<^verbatim>\<open>authenticated\<close>.
\<close>

theorem session_predicates_by_configuration:
  "(VITE_AUTH_USERNAME e = None \<or> VITE_AUTH_USERNAME e = Some [] \<or>
    VITE_AUTH_PASSWORD e = None \<or> VITE_AUTH_PASSWORD e = Some []
      \<longrightarrow> isAuthRequired e = False \<and> isAuthenticated e st = Inr True) \<and>
   (VITE_AUTH_USERNAME e = Some u \<and> u \<noteq> [] \<and> VITE_AUTH_PASSWORD e = Some p \<and> p \<noteq> []
      \<longrightarrow> isAuthRequired e \<and>
          isAuthenticated e (Available al) =
            Inr (map_of al AUTH_SESSION_KEY = Some ''authenticated'') \<and>
          (isAuthenticated e st = Inr True
             \<longleftrightarrow> getItem st AUTH_SESSION_KEY = Inr (Some ''authenticated'')))"
proof (intro conjI impI)
  assume "VITE_AUTH_USERNAME e = None \<or> VITE_AUTH_USERNAME e = Some [] \<or>
    VITE_AUTH_PASSWORD e = None \<or> VITE_AUTH_PASSWORD e = Some []"
  then show "isAuthRequired e = False" by (auto simp: isAuthRequired_def)
  then show "isAuthenticated e st = Inr True" by (simp add: isAuthenticated_open)
next
  assume "VITE_AUTH_USERNAME e = Some u \<and> u \<noteq> [] \<and> VITE_AUTH_PASSWORD e = Some p \<and> p \<noteq> []"
  then show required: "isAuthRequired e" by (simp add: isAuthRequired_def)
  then show "isAuthenticated e (Available al) =
            Inr (map_of al AUTH_SESSION_KEY = Some ''authenticated'')"
    by (rule isAuthenticated_available)
  from required show "isAuthenticated e st = Inr True
             \<longleftrightarrow> getItem st AUTH_SESSION_KEY = Inr (Some ''authenticated'')"
    by (cases st) (auto simp: isAuthenticated_def getItem_def)
qed

theorem session_predicates_by_configuration_witness:
  "isAuthRequired empty_password_cfg = False \<and>
   isAuthenticated empty_password_cfg Unavailable = Inr True \<and>
   isAuthRequired admin_cfg \<and>
   isAuthenticated admin_cfg (Available [(''meilisearch-ui-auth'', ''authenticated'')]) = Inr True \<and>
   isAuthenticated admin_cfg (Available [(''meilisearch-ui-auth'', ''stale'')]) = Inr False"
  using session_predicates_by_configuration
          [of empty_password_cfg Unavailable "''admin''" "[]" "[]"]
        session_predicates_by_configuration
          [of admin_cfg Unavailable "''admin''" "utf16 ''secret''"
              "[(''meilisearch-ui-auth'', ''authenticated'')]"]
        session_predicates_by_configuration
          [of admin_cfg Unavailable "''admin''" "utf16 ''secret''"
              "[(''meilisearch-ui-auth'', ''stale'')]"]
  by (simp add: AUTH_SESSION_KEY_def)

section \<open>Login and logout\<close>

text \<open>
  Claim C3, as stated, fails in three ways. A wrong password is accepted when its UTF-8
  encoding is that of the configured one: the lone surrogate \<^verbatim>\<open>U+D800\<close> is encoded as
  \<^verbatim>\<open>U+FFFD\<close>, so it logs in against the configured password \<^verbatim>\<open>U+FFFD\<close>, whatever the
  digest. With the correct credentials \<open>login\<close> does not return true but raises when
  \<^verbatim>\<open>crypto.subtle\<close> is missing, and when the storage has no room for the flag.
\<close>

theorem login_counterexample:
  "[0xD800] \<noteq> [0xFFFD :: code_unit] \<and>
   TextEncoder_encode [0xD800] = TextEncoder_encode [0xFFFD] \<and>
   login browser replacement_cfg (Available []) ''admin'' [0xD800] =
     Inr (True, Available [(''meilisearch-ui-auth'', ''authenticated'')]) \<and>
   login insecure_browser admin_cfg (Available []) ''admin'' (utf16 ''secret'') = Inl TypeError \<and>
   login private_browser admin_cfg (Available []) ''admin'' (utf16 ''secret'') =
     Inl QuotaExceededError"
  by (simp add: login_def hashPassword_def isAuthRequired_def setItem_def
        AUTH_SESSION_KEY_def unpaired_surrogate_encoding)

text \<open>
  Claim C3, amended. With both credentials configured and the digest available:
  \<open>login\<close> with the configured username and password stores the marker under the session
  key and returns true, when the storage is usable and has room for it; \<open>login\<close> with
  another username returns false and hands back the storage it was given; so does \<open>login\<close>
  with a password whose digest, as \<open>hashPassword\<close> computes it, differs from that of the
  configured password.
\<close>

theorem login_by_digest:
  assumes "VITE_AUTH_USERNAME e = Some correctUser" and "correctUser \<noteq> []"
    and "VITE_AUTH_PASSWORD e = Some correctPass" and "correctPass \<noteq> []"
    and "crypto_subtle_digest p = Some digest"
  shows "(storage_size (AList.update AUTH_SESSION_KEY ''authenticated'' al) \<le> storage_quota p
            \<longrightarrow> login p e (Available al) correctUser correctPass =
                  Inr (True, Available (AList.update AUTH_SESSION_KEY ''authenticated'' al)) \<and>
                getItem (Available (AList.update AUTH_SESSION_KEY ''authenticated'' al))
                  AUTH_SESSION_KEY = Inr (Some ''authenticated'')) \<and>
         (wrongUser \<noteq> correctUser \<longrightarrow> login p e st wrongUser pw = Inr (False, st)) \<and>
         (hashPassword p wrongPass \<noteq> hashPassword p correctPass
            \<longrightarrow> login p e st u wrongPass = Inr (False, st))"
proof -
  from assms have required: "isAuthRequired e" by (simp add: isAuthRequired_def)
  note unfolded = login_with_digest [OF required assms(5)]
  show ?thesis
  proof (intro conjI impI)
    assume room: "storage_size (AList.update AUTH_SESSION_KEY ''authenticated'' al)
                    \<le> storage_quota p"
    show "login p e (Available al) correctUser correctPass =
            Inr (True, Available (AList.update AUTH_SESSION_KEY ''authenticated'' al))"
      using assms(1,3) by (simp add: unfolded setItem_room [OF room])
    show "getItem (Available (AList.update AUTH_SESSION_KEY ''authenticated'' al))
            AUTH_SESSION_KEY = Inr (Some ''authenticated'')"
      by (simp add: getItem_def update_conv')
  next
    assume "wrongUser \<noteq> correctUser"
    then show "login p e st wrongUser pw = Inr (False, st)"
      using assms(1) by (simp add: unfolded)
  next
    assume "hashPassword p wrongPass \<noteq> hashPassword p correctPass"
    then show "login p e st u wrongPass = Inr (False, st)"
      using assms(3) by (simp add: unfolded)
  qed
qed

theorem login_by_digest_witness:
  "login browser admin_cfg (Available []) ''admin'' (utf16 ''secret'') =
     Inr (True, Available [(''meilisearch-ui-auth'', ''authenticated'')]) \<and>
   login browser admin_cfg (Available []) ''root'' (utf16 ''secret'') =
     Inr (False, Available []) \<and>
   login browser admin_cfg (Available []) ''admin'' (utf16 ''wrong'') =
     Inr (False, Available [])"
  using login_by_digest
          [of admin_cfg "''admin''" "utf16 ''secret''" browser id "[]" "''root''" "Available []"
              "utf16 ''secret''" "utf16 ''wrong''" "''admin''"]
  by (simp add: AUTH_SESSION_KEY_def hashPassword_def TextEncoder_encode_def utf8_def
        unpaired_def isHighSurrogate_def isLowSurrogate_def utf16_def toHex_def hexDigit_def)

text \<open>
  Claim C8. With both credentials configured, the digest available and room in the
  storage, \<open>login\<close> with the configured credentials returns true and leaves a storage on
  which \<open>isAuthenticated\<close> returns true; \<open>logout\<close> on that storage succeeds, and on the
  storage it leaves \<open>isAuthenticated\<close> returns false and a second \<open>logout\<close> changes
  nothing. The same holds after every \<open>login\<close> that returned true, whatever the input. On
  any storage, two \<open>logout\<close> calls in a row give the result of one.
\<close>

theorem login_logout_round_trip:
  assumes "VITE_AUTH_USERNAME e = Some correctUser" and "correctUser \<noteq> []"
    and "VITE_AUTH_PASSWORD e = Some correctPass" and "correctPass \<noteq> []"
    and "crypto_subtle_digest p = Some digest"
    and "storage_size (AList.update AUTH_SESSION_KEY ''authenticated'' al) \<le> storage_quota p"
  shows "login p e (Available al) correctUser correctPass =
           Inr (True, Available (AList.update AUTH_SESSION_KEY ''authenticated'' al)) \<and>
         isAuthenticated e (Available (AList.update AUTH_SESSION_KEY ''authenticated'' al)) =
           Inr True \<and>
         logout (Available (AList.update AUTH_SESSION_KEY ''authenticated'' al)) =
           Inr (Available (AList.delete AUTH_SESSION_KEY al)) \<and>
         isAuthenticated e (Available (AList.delete AUTH_SESSION_KEY al)) = Inr False \<and>
         logout (Available (AList.delete AUTH_SESSION_KEY al)) =
           Inr (Available (AList.delete AUTH_SESSION_KEY al)) \<and>
         (\<forall>st u pw st1. login p e st u pw = Inr (True, st1)
            \<longrightarrow> isAuthenticated e st1 = Inr True \<and>
                (\<exists>st2. logout st1 = Inr st2 \<and> isAuthenticated e st2 = Inr False \<and>
                        getItem st2 AUTH_SESSION_KEY = Inr None \<and> logout st2 = Inr st2)) \<and>
         (case logout st0 of Inl err \<Rightarrow> Inl err | Inr st' \<Rightarrow> logout st') = logout st0"
proof -
  from assms have required: "isAuthRequired e" by (simp add: isAuthRequired_def)
  have "login p e (Available al) correctUser correctPass =
          Inr (True, Available (AList.update AUTH_SESSION_KEY ''authenticated'' al))"
    using assms(1,3)
    by (simp add: login_with_digest [OF required assms(5)] setItem_room [OF assms(6)])
  moreover have "isAuthenticated e (Available (AList.update AUTH_SESSION_KEY ''authenticated'' al)) =
           Inr True"
    by (simp add: isAuthenticated_available [OF required] update_conv')
  moreover have "logout (Available (AList.update AUTH_SESSION_KEY ''authenticated'' al)) =
           Inr (Available (AList.delete AUTH_SESSION_KEY al))"
    by (rule logout_after_setItem)
  moreover have "isAuthenticated e (Available (AList.delete AUTH_SESSION_KEY al)) = Inr False"
    by (simp add: isAuthenticated_available [OF required] delete_conv')
  moreover have "logout (Available (AList.delete AUTH_SESSION_KEY al)) =
           Inr (Available (AList.delete AUTH_SESSION_KEY al))"
    by (simp add: logout_def removeItem_def delete_idem)
  moreover have "isAuthenticated e st1 = Inr True \<and>
      (\<exists>st2. logout st1 = Inr st2 \<and> isAuthenticated e st2 = Inr False \<and>
              getItem st2 AUTH_SESSION_KEY = Inr None \<and> logout st2 = Inr st2)"
    if success: "login p e st u pw = Inr (True, st1)" for st u pw st1
  proof -
    from success have stored: "setItem (storage_quota p) st AUTH_SESSION_KEY ''authenticated'' = Inr st1"
      by (rule login_true_stores)
    then have "getItem st1 AUTH_SESSION_KEY = Inr (Some ''authenticated'')"
      by (rule setItem_then_getItem)
    with required have "isAuthenticated e st1 = Inr True"
      by (simp add: isAuthenticated_def)
    moreover from stored obtain al1 where "st1 = Available al1"
      using setItem_available by blast
    then obtain st2 where out: "logout st1 = Inr st2"
      by (simp add: logout_def removeItem_def)
    then have "getItem st2 AUTH_SESSION_KEY = Inr None" "logout st2 = Inr st2"
      unfolding logout_def by (rule removeItem_then_getItem, rule removeItem_twice)
    moreover from this required have "isAuthenticated e st2 = Inr False"
      by (simp add: isAuthenticated_def)
    ultimately show ?thesis using out by blast
  qed
  ultimately show ?thesis using logout_logout by blast
qed

theorem login_logout_round_trip_witness:
  "login browser admin_cfg (Available [(''theme'', ''dark'')]) ''admin'' (utf16 ''secret'') =
     Inr (True, Available [(''theme'', ''dark''), (''meilisearch-ui-auth'', ''authenticated'')]) \<and>
   isAuthenticated admin_cfg
     (Available [(''theme'', ''dark''), (''meilisearch-ui-auth'', ''authenticated'')]) = Inr True \<and>
   logout (Available [(''theme'', ''dark''), (''meilisearch-ui-auth'', ''authenticated'')]) =
     Inr (Available [(''theme'', ''dark'')]) \<and>
   isAuthenticated admin_cfg (Available [(''theme'', ''dark'')]) = Inr False \<and>
   logout (Available [(''theme'', ''dark'')]) = Inr (Available [(''theme'', ''dark'')])"
  using login_logout_round_trip
          [of admin_cfg "''admin''" "utf16 ''secret''" browser id "[(''theme'', ''dark'')]"
              "Available []"]
  by (simp add: AUTH_SESSION_KEY_def logout_def removeItem_def)

text \<open>
  Claim C10. \<open>validateSession\<close> changes the storage: with authentication required and a
  value under the session key that is not the marker (or no value), it returns false and
  the storage it leaves has the session key removed. With authentication not required it
  returns true and leaves the storage as it is, and so it does when the stored value is
  the marker.
\<close>

theorem validateSession_clears_invalid_session:
  "(isAuthRequired e \<and> map_of al AUTH_SESSION_KEY \<noteq> Some ''authenticated''
      \<longrightarrow> validateSession e (Available al) =
            Inr (False, Available (AList.delete AUTH_SESSION_KEY al)) \<and>
          getItem (Available (AList.delete AUTH_SESSION_KEY al)) AUTH_SESSION_KEY = Inr None) \<and>
   (\<not> isAuthRequired e \<longrightarrow> validateSession e st = Inr (True, st)) \<and>
   (isAuthRequired e \<and> map_of al AUTH_SESSION_KEY = Some ''authenticated''
      \<longrightarrow> validateSession e (Available al) = Inr (True, Available al))"
  by (simp add: validateSession_def isAuthenticated_available logout_def removeItem_def
        getItem_def delete_conv')

theorem validateSession_clears_invalid_session_witness:
  "validateSession admin_cfg
     (Available [(''meilisearch-ui-auth'', ''stale''), (''other'', ''kept'')]) =
     Inr (False, Available [(''other'', ''kept'')]) \<and>
   validateSession unset_cfg (Available [(''meilisearch-ui-auth'', ''stale'')]) =
     Inr (True, Available [(''meilisearch-ui-auth'', ''stale'')]) \<and>
   validateSession admin_cfg (Available [(''meilisearch-ui-auth'', ''authenticated'')]) =
     Inr (True, Available [(''meilisearch-ui-auth'', ''authenticated'')])"
  using validateSession_clears_invalid_session
          [of admin_cfg "[(''meilisearch-ui-auth'', ''stale''), (''other'', ''kept'')]"
              Unavailable]
        validateSession_clears_invalid_session
          [of unset_cfg "[]" "Available [(''meilisearch-ui-auth'', ''stale'')]"]
        validateSession_clears_invalid_session
          [of admin_cfg "[(''meilisearch-ui-auth'', ''authenticated'')]" Unavailable]
  by (simp add: AUTH_SESSION_KEY_def isAuthRequired_def)

section \<open>The post-login redirect target\<close>

text \<open>
  Claim C7 does not hold of the code. Under the default base path \<^verbatim>\<open>/\<close> the
  \<^verbatim>\<open>redirect\<close> parameter \<^verbatim>\<open>//evil.example/x\<close>, which names another host, passes the
  prefix test and is returned unchanged; under the base path \<^verbatim>\<open>/ui/\<close> so is
  \<^verbatim>\<open>/ui/../admin\<close>, which leaves the base path. A parameter that does not start with
  the base path is replaced by the base path.
\<close>

theorem redirect_check_misses_foreign_targets:
  "getRedirectUrl admin_cfg [(''redirect'', ''//evil.example/x'')] = ''//evil.example/x'' \<and>
   getRedirectUrl ui_cfg [(''redirect'', ''/ui/../admin'')] = ''/ui/../admin'' \<and>
   getRedirectUrl ui_cfg [(''redirect'', ''https://evil.example/'')] = ''/ui/''"
  by (simp add: getRedirectUrl_def URLSearchParams_get_def baseUrl_def startsWith_def)

section \<open>The route entry gate\<close>

text \<open>
  Claim C4, as stated, fails: for the login location \<open>beforeLoad\<close> throws a redirect to
  \<^verbatim>\<open>/\<close> when the session is authenticated, and when no credentials are configured.
\<close>

theorem gate_login_surface_counterexample:
  "beforeLoad admin_cfg (Available [(''meilisearch-ui-auth'', ''authenticated'')]) ''/login'' =
     Inr (Redirect ''/'' []) \<and>
   beforeLoad unset_cfg (Available []) ''/login'' = Inr (Redirect ''/'' [])"
  by (simp add: beforeLoad_def redirectAuthenticatedFromLogin_def isAuthenticated_def
        isAuthRequired_def getItem_def AUTH_SESSION_KEY_def)

text \<open>
  Claim C4, amended. For the login location \<open>beforeLoad\<close> lets the navigation go on when
  authentication is required and the session is not authenticated, and throws a redirect
  to \<^verbatim>\<open>/\<close> when \<open>isAuthenticated\<close> returns true.
\<close>

theorem gate_login_surface:
  "(isAuthRequired e \<and> isAuthenticated e st = Inr False
      \<longrightarrow> beforeLoad e st ''/login'' = Inr Allow) \<and>
   (isAuthenticated e st = Inr True
      \<longrightarrow> beforeLoad e st ''/login'' = Inr (Redirect ''/'' []))"
  by (auto simp: beforeLoad_def redirectAuthenticatedFromLogin_def)

theorem gate_login_surface_witness:
  "beforeLoad admin_cfg (Available []) ''/login'' = Inr Allow \<and>
   beforeLoad admin_cfg (Available [(''meilisearch-ui-auth'', ''authenticated'')]) ''/login'' =
     Inr (Redirect ''/'' [])"
  using gate_login_surface [of admin_cfg "Available []"]
        gate_login_surface [of admin_cfg "Available [(''meilisearch-ui-auth'', ''authenticated'')]"]
  by (simp add: isAuthRequired_def isAuthenticated_def getItem_def AUTH_SESSION_KEY_def)

text \<open>
  Claim C5. For a location other than the login location, with authentication required
  and the session not authenticated, \<open>beforeLoad\<close> throws a redirect to \<^verbatim>\<open>/login\<close>
  whose search parameter \<^verbatim>\<open>redirect\<close> is the requested path.
\<close>

theorem gate_redirects_unauthenticated:
  assumes "pathname \<noteq> ''/login''" and "isAuthRequired e" and "isAuthenticated e st = Inr False"
  shows "beforeLoad e st pathname = Inr (Redirect ''/login'' [(''redirect'', pathname)])"
  using assms by (simp add: beforeLoad_def)

theorem gate_redirects_unauthenticated_witness:
  "beforeLoad admin_cfg (Available []) ''/ins/0/keys'' =
     Inr (Redirect ''/login'' [(''redirect'', ''/ins/0/keys'')])"
  using gate_redirects_unauthenticated [of "''/ins/0/keys''" admin_cfg "Available []"]
  by (simp add: isAuthRequired_def isAuthenticated_def getItem_def AUTH_SESSION_KEY_def)

section \<open>The continuous guard\<close>

text \<open>
  Claim C1. When authentication is required and \<open>isAuthenticated\<close> returns false,
  \<open>checkAuth\<close> sets the store's \<open>authenticated\<close> flag to false and then asks the router
  to replace the location by \<^verbatim>\<open>/login\<close>, in this order and nothing else. When
  authentication is not required or \<open>isAuthenticated\<close> returns true, \<open>checkAuth\<close> changes
  nothing. The mount of the hook (not skipped), the tick of its registered timer and its
  registered storage listener, for an event on the session key or on no key, all run this
  same \<open>checkAuth\<close>.
\<close>

theorem guard_validity_check:
  "(isAuthRequired e \<and> isAuthenticated e (storage w) = Inr False
      \<longrightarrow> checkAuth e w =
            Inr (w\<lparr>authenticated := False,
                   trace := trace w @ [SetAuthenticated False, Navigate ''/login'' Replace]\<rparr>)) \<and>
   (\<not> isAuthRequired e \<or> isAuthenticated e (storage w) = Inr True
      \<longrightarrow> checkAuth e w = Inr w) \<and>
   useAuthGuard e False w =
     (case checkAuth e w of
        Inl err \<Rightarrow> Inl err
      | Inr w' \<Rightarrow> Inr (w'\<lparr>timer := True, listener := True\<rparr>)) \<and>
   (timer w \<longrightarrow> deliver e Tick w = checkAuth e w) \<and>
   (listener w \<and> (key = Some AUTH_SESSION_KEY \<or> key = None)
      \<longrightarrow> deliver e (StorageEvent key) w = checkAuth e w)"
proof (intro conjI impI)
  assume "isAuthRequired e \<and> isAuthenticated e (storage w) = Inr False"
  then show "checkAuth e w =
            Inr (w\<lparr>authenticated := False,
                   trace := trace w @ [SetAuthenticated False, Navigate ''/login'' Replace]\<rparr>)"
    by (simp add: checkAuth_lost)
next
  assume "\<not> isAuthRequired e \<or> isAuthenticated e (storage w) = Inr True"
  then show "checkAuth e w = Inr w" by (rule checkAuth_valid)
next
  show "useAuthGuard e False w =
     (case checkAuth e w of
        Inl err \<Rightarrow> Inl err
      | Inr w' \<Rightarrow> Inr (w'\<lparr>timer := True, listener := True\<rparr>))"
    by (simp add: useAuthGuard_def)
next
  assume "timer w"
  then show "deliver e Tick w = checkAuth e w" by simp
next
  assume "listener w \<and> (key = Some AUTH_SESSION_KEY \<or> key = None)"
  then show "deliver e (StorageEvent key) w = checkAuth e w"
    by (auto simp: handleStorageChange_def AUTH_SESSION_KEY_def)
qed

theorem guard_validity_check_witness:
  "checkAuth admin_cfg (fresh_world (Available [])) =
     Inr \<lparr>storage = Available [], authenticated = False,
          trace = [SetAuthenticated False, Navigate ''/login'' Replace],
          timer = False, listener = False\<rparr> \<and>
   checkAuth admin_cfg (fresh_world (Available [(''meilisearch-ui-auth'', ''authenticated'')])) =
     Inr (fresh_world (Available [(''meilisearch-ui-auth'', ''authenticated'')])) \<and>
   deliver admin_cfg Tick (armed_world (Available [])) =
     Inr \<lparr>storage = Available [], authenticated = False,
          trace = [SetAuthenticated False, Navigate ''/login'' Replace],
          timer = True, listener = True\<rparr> \<and>
   deliver admin_cfg (StorageEvent None) (armed_world (Available [])) =
     Inr \<lparr>storage = Available [], authenticated = False,
          trace = [SetAuthenticated False, Navigate ''/login'' Replace],
          timer = True, listener = True\<rparr>"
  using guard_validity_check [of admin_cfg "fresh_world (Available [])" None]
        guard_validity_check
          [of admin_cfg "fresh_world (Available [(''meilisearch-ui-auth'', ''authenticated'')])"
              None]
        guard_validity_check [of admin_cfg "armed_world (Available [])" None]
  by (simp add: isAuthRequired_def isAuthenticated_def getItem_def AUTH_SESSION_KEY_def)

text \<open>
  Claim C6, as stated, fails: with authentication required and the storage unavailable,
  \<open>isAuthenticated\<close> does not return false as it does for an absent flag; the storage
  exception leaves it, and leaves the mount check, the timer tick and the storage
  listener.
\<close>

theorem storage_failure_counterexample:
  "isAuthenticated admin_cfg Unavailable = Inl StorageError \<and>
   isAuthenticated admin_cfg (Available []) = Inr False \<and>
   useAuthGuard admin_cfg False (fresh_world Unavailable) =
     Inl (StorageError, fresh_world Unavailable) \<and>
   deliver admin_cfg Tick (armed_world Unavailable) = Inl (StorageError, armed_world Unavailable) \<and>
   deliver admin_cfg (StorageEvent (Some ''meilisearch-ui-auth'')) (armed_world Unavailable) =
     Inl (StorageError, armed_world Unavailable)"
  by (simp add: isAuthenticated_def isAuthRequired_def getItem_def AUTH_SESSION_KEY_def
        useAuthGuard_def checkAuth_def handleStorageChange_def)

text \<open>
  Claim C6, amended. With authentication required and the storage unavailable,
  \<open>isAuthenticated\<close> raises the storage error and so never returns true; the mount
  check, the timer tick and the storage listener raise it too, and the world at the throw
  is the world before the call: the store is not updated, no navigation is issued, and a
  mount registers neither the timer nor the listener. With authentication not required
  the storage is not read: \<open>isAuthenticated\<close> returns true, the mount only registers the
  timer and the listener, and no event changes anything or raises.
\<close>

theorem storage_failure_propagates:
  "(isAuthRequired e \<and> storage w = Unavailable
      \<longrightarrow> isAuthenticated e (storage w) = Inl StorageError \<and>
          isAuthenticated e (storage w) \<noteq> Inr True \<and>
          checkAuth e w = Inl (StorageError, w) \<and>
          useAuthGuard e False w = Inl (StorageError, w) \<and>
          (timer w \<longrightarrow> deliver e Tick w = Inl (StorageError, w)) \<and>
          (listener w \<and> (key = Some AUTH_SESSION_KEY \<or> key = None)
             \<longrightarrow> deliver e (StorageEvent key) w = Inl (StorageError, w))) \<and>
   (\<not> isAuthRequired e
      \<longrightarrow> isAuthenticated e (storage w) = Inr True \<and>
          useAuthGuard e False w = Inr (w\<lparr>timer := True, listener := True\<rparr>) \<and>
          deliver e ev w = Inr w)"
proof (intro conjI impI)
  assume a: "isAuthRequired e \<and> storage w = Unavailable"
  then show "isAuthenticated e (storage w) = Inl StorageError"
    by (simp add: isAuthenticated_unavailable)
  then show "isAuthenticated e (storage w) \<noteq> Inr True" by simp
  from a show c: "checkAuth e w = Inl (StorageError, w)"
    by (simp add: checkAuth_error)
  then show "useAuthGuard e False w = Inl (StorageError, w)"
    by (simp add: useAuthGuard_def)
  { assume "timer w"
    with c show "deliver e Tick w = Inl (StorageError, w)" by simp }
  { assume "listener w \<and> (key = Some AUTH_SESSION_KEY \<or> key = None)"
    with c show "deliver e (StorageEvent key) w = Inl (StorageError, w)"
      by (auto simp: handleStorageChange_def AUTH_SESSION_KEY_def) }
next
  assume n: "\<not> isAuthRequired e"
  then show "isAuthenticated e (storage w) = Inr True" by (rule isAuthenticated_open)
  from n have c: "checkAuth e w = Inr w" by (simp add: checkAuth_valid)
  then show "useAuthGuard e False w = Inr (w\<lparr>timer := True, listener := True\<rparr>)"
    by (simp add: useAuthGuard_def)
  from c show "deliver e ev w = Inr w"
    by (cases ev) (simp_all add: handleStorageChange_def)
qed

theorem storage_failure_propagates_witness:
  "isAuthenticated admin_cfg Unavailable = Inl StorageError \<and>
   checkAuth admin_cfg (fresh_world Unavailable) = Inl (StorageError, fresh_world Unavailable) \<and>
   useAuthGuard admin_cfg False (fresh_world Unavailable) =
     Inl (StorageError, fresh_world Unavailable) \<and>
   deliver admin_cfg Tick (armed_world Unavailable) = Inl (StorageError, armed_world Unavailable) \<and>
   deliver admin_cfg (StorageEvent None) (armed_world Unavailable) =
     Inl (StorageError, armed_world Unavailable) \<and>
   isAuthenticated unset_cfg Unavailable = Inr True \<and>
   useAuthGuard unset_cfg False (fresh_world Unavailable) = Inr (armed_world Unavailable) \<and>
   deliver unset_cfg Tick (armed_world Unavailable) = Inr (armed_world Unavailable)"
  using storage_failure_propagates [of admin_cfg "fresh_world Unavailable" None Tick]
        storage_failure_propagates [of admin_cfg "armed_world Unavailable" None Tick]
        storage_failure_propagates [of unset_cfg "fresh_world Unavailable" None Tick]
        storage_failure_propagates [of unset_cfg "armed_world Unavailable" None Tick]
  by (simp add: isAuthRequired_def)

text \<open>
  Claim C9. The hook mounted with \<open>skipMonitoring\<close> true returns at once: it makes no
  check, issues no navigation and registers neither the timer nor the listener. With
  none of the two registered, no sequence of timer ticks and storage events changes
  anything. \<open>AuthGuard\<close> passes \<open>skipMonitoring\<close> true at the login location, and its whole
  mount there adds one store update to the trace and no navigation, and leaves timer,
  listener and storage as they were.
\<close>

theorem skipped_guard_is_inert:
  "useAuthGuard e True w = Inr w \<and>
   (\<not> timer w \<and> \<not> listener w \<longrightarrow> deliver_all e evs w = Inr w) \<and>
   (\<forall>w'. AuthGuard e ''/login'' w = Inr w'
      \<longrightarrow> trace w' = trace w @ [SetAuthenticated (authenticated w')] \<and>
          timer w' = timer w \<and> listener w' = listener w \<and> storage w' = storage w)"
proof (intro conjI impI allI)
  show skip: "useAuthGuard e True w = Inr w" by (simp add: useAuthGuard_def)
  { assume "\<not> timer w \<and> \<not> listener w"
    then show "deliver_all e evs w = Inr w" by (simp add: deliver_all_unarmed) }
  fix w' assume "AuthGuard e ''/login'' w = Inr w'"
  then have "AuthGuard_effect e ''/login'' w = Inr w'"
    by (simp add: AuthGuard_def AuthGuard_render_def skip split: sum.splits if_splits)
  then have eq: "w' = setAuthenticated (authenticated w') w" by (rule AuthGuard_effect_login)
  show "trace w' = trace w @ [SetAuthenticated (authenticated w')]"
    by (subst eq) (simp add: setAuthenticated_def)
  show "timer w' = timer w" by (subst eq) (simp add: setAuthenticated_def)
  show "listener w' = listener w" by (subst eq) (simp add: setAuthenticated_def)
  show "storage w' = storage w" by (subst eq) (simp add: setAuthenticated_def)
qed

theorem skipped_guard_is_inert_witness:
  "useAuthGuard admin_cfg True (fresh_world (Available [])) = Inr (fresh_world (Available [])) \<and>
   deliver_all admin_cfg [Tick, StorageEvent None, Tick] (fresh_world (Available [])) =
     Inr (fresh_world (Available [])) \<and>
   AuthGuard admin_cfg ''/login'' (fresh_world (Available [])) =
     Inr \<lparr>storage = Available [], authenticated = False, trace = [SetAuthenticated False],
          timer = False, listener = False\<rparr>"
  using skipped_guard_is_inert
          [of admin_cfg "fresh_world (Available [])" "[Tick, StorageEvent None, Tick]"]
  by (simp add: AuthGuard_def AuthGuard_render_def AuthGuard_effect_def useAuthGuard_def
        setAuthenticated_def isAuthRequired_def isAuthenticated_def getItem_def
        AUTH_SESSION_KEY_def)

end
